theory Spec2Isabelle
  imports Complex_Main
begin

section \<open>The market-data relay of \<^verbatim>\<open>main.py\<close>\<close>

text \<open>
  The program polls two REST endpoints per currency pair, caches one payload per pair
  and pushes it to every connected WebSocket client. The embedding below follows
  \<^verbatim>\<open>main.py\<close> statement by statement. What the program gets from outside is an
  explicit input of the model:
  \<^item> the outcome of each HTTP request (an exception, or the decoded JSON body);
  \<^item> the outcome of each \<^verbatim>\<open>send_text\<close>, and what other coroutines did to the
    shared state while the send was suspended (asyncio switches tasks only at an
    \<^verbatim>\<open>await\<close>);
  \<^item> the clock, the order in which a Python \<^verbatim>\<open>set\<close> is listed, and the two library
    functions \<^verbatim>\<open>float\<close> (on strings) and \<^verbatim>\<open>json.dumps\<close>.

  Python floats are modelled as exact rationals: rounding, overflow, infinities and NaN
  are outside the model. \<^verbatim>\<open>print\<close> statements have no effect on the state or on what
  is sent and are left out.
\<close>

subsection \<open>Exceptions\<close>

text \<open>
  The exception classes the handlers of \<^verbatim>\<open>main.py\<close> tell apart, and the ones raised by
  the operations it uses. \<open>ClientError\<close> is \<^verbatim>\<open>aiohttp.ClientError\<close> with its subclasses
  (\<^verbatim>\<open>raise_for_status\<close> raises one of them for a 4xx/5xx status). \<open>TimeoutError\<close> is
  \<^verbatim>\<open>asyncio.TimeoutError\<close>, which aiohttp raises when the total timeout of a request
  expires; it is not a subclass of \<^verbatim>\<open>aiohttp.ClientError\<close>. \<open>RuntimeError\<close> stands
  for every other subclass of \<^verbatim>\<open>Exception\<close>.
\<close>

datatype exn =
    ClientError
  | TimeoutError
  | JSONDecodeError
  | TypeError
  | IndexError
  | ValueError
  | KeyError
  | AttributeError
  | WebSocketDisconnect
  | RuntimeError

subsection \<open>Decoded JSON and the Python operations on it\<close>

text \<open>
  The object \<^verbatim>\<open>response.json()\<close> returns. \<open>JObj\<close> lists the items of a \<^verbatim>\<open>dict\<close>;
  \<open>JNum\<close> is an \<^verbatim>\<open>int\<close> or a \<^verbatim>\<open>float\<close>.
\<close>

datatype json =
    JNull
  | JBool bool
  | JNum rat
  | JStr string
  | JArr "json list"
  | JObj "(string \<times> json) list"

fun truthy :: "json \<Rightarrow> bool" where
  "truthy JNull = False"
| "truthy (JBool b) = b"
| "truthy (JNum r) = (r \<noteq> 0)"
| "truthy (JStr s) = (s \<noteq> [])"
| "truthy (JArr xs) = (xs \<noteq> [])"
| "truthy (JObj kvs) = (kvs \<noteq> [])"

fun starts_with :: "string \<Rightarrow> string \<Rightarrow> bool" where
  "starts_with [] s = True"
| "starts_with (k # ks) [] = False"
| "starts_with (k # ks) (c # cs) = (k = c \<and> starts_with ks cs)"

fun str_contains :: "string \<Rightarrow> string \<Rightarrow> bool" where
  "str_contains k [] = (k = [])"
| "str_contains k (c # cs) = (starts_with k (c # cs) \<or> str_contains k cs)"

text \<open>\<^verbatim>\<open>key in obj\<close>: membership in a dict's keys, in a list's elements, substring of a
  string; \<^verbatim>\<open>TypeError\<close> on anything else.\<close>

fun py_in :: "string \<Rightarrow> json \<Rightarrow> exn + bool" where
  "py_in k (JObj kvs) = Inr (map_of kvs k \<noteq> None)"
| "py_in k (JArr xs) = Inr (JStr k \<in> set xs)"
| "py_in k (JStr s) = Inr (str_contains k s)"
| "py_in k JNull = Inl TypeError"
| "py_in k (JBool b) = Inl TypeError"
| "py_in k (JNum r) = Inl TypeError"

text \<open>\<^verbatim>\<open>obj[key]\<close> with a string key.\<close>

fun py_getitem :: "json \<Rightarrow> string \<Rightarrow> exn + json" where
  "py_getitem (JObj kvs) k = (case map_of kvs k of None \<Rightarrow> Inl KeyError | Some v \<Rightarrow> Inr v)"
| "py_getitem (JArr xs) k = Inl TypeError"
| "py_getitem (JStr s) k = Inl TypeError"
| "py_getitem JNull k = Inl TypeError"
| "py_getitem (JBool b) k = Inl TypeError"
| "py_getitem (JNum r) k = Inl TypeError"

text \<open>\<^verbatim>\<open>obj.get(key, default)\<close>: only a dict has the method.\<close>

fun py_get :: "json \<Rightarrow> string \<Rightarrow> json \<Rightarrow> exn + json" where
  "py_get (JObj kvs) k d = Inr (case map_of kvs k of None \<Rightarrow> d | Some v \<Rightarrow> v)"
| "py_get (JArr xs) k d = Inl AttributeError"
| "py_get (JStr s) k d = Inl AttributeError"
| "py_get JNull k d = Inl AttributeError"
| "py_get (JBool b) k d = Inl AttributeError"
| "py_get (JNum r) k d = Inl AttributeError"

text \<open>
  The two library functions the program calls and the model does not define:
  \<^verbatim>\<open>float(s)\<close> on a string (\<open>None\<close> when it raises \<^verbatim>\<open>ValueError\<close>) and
  \<^verbatim>\<open>json.dumps\<close> on a payload. The payload is declared first.
\<close>

record payload =
  symbol :: string
  price :: rat
  high_price :: rat
  low_price :: rat
  percentage_change :: string
  volume_24h :: rat
  buy_orders :: "(rat \<times> rat) list"
  sell_orders :: "(rat \<times> rat) list"
  timestamp :: string

record pylib =
  float_of_str :: "string \<Rightarrow> rat option"
  dumps :: "payload \<Rightarrow> string"

text \<open>\<^verbatim>\<open>float(x)\<close> on a decoded JSON value.\<close>

fun py_float :: "pylib \<Rightarrow> json \<Rightarrow> exn + rat" where
  "py_float L (JNum r) = Inr r"
| "py_float L (JBool b) = Inr (if b then 1 else 0)"
| "py_float L (JStr s) = (case float_of_str L s of None \<Rightarrow> Inl ValueError | Some r \<Rightarrow> Inr r)"
| "py_float L JNull = Inl TypeError"
| "py_float L (JArr xs) = Inl TypeError"
| "py_float L (JObj kvs) = Inl TypeError"

text \<open>\<^verbatim>\<open>p, a = entry\<close>: unpacking into exactly two targets. A list yields its elements,
  a string its characters, a dict its keys.\<close>

fun unpack2 :: "json \<Rightarrow> exn + (json \<times> json)" where
  "unpack2 (JArr xs) = (case xs of [p, a] \<Rightarrow> Inr (p, a) | _ \<Rightarrow> Inl ValueError)"
| "unpack2 (JStr s) = (case s of [p, a] \<Rightarrow> Inr (JStr [p], JStr [a]) | _ \<Rightarrow> Inl ValueError)"
| "unpack2 (JObj kvs) =
     (case kvs of [(p, _), (a, _)] \<Rightarrow> Inr (JStr p, JStr a) | _ \<Rightarrow> Inl ValueError)"
| "unpack2 JNull = Inl TypeError"
| "unpack2 (JBool b) = Inl TypeError"
| "unpack2 (JNum r) = Inl TypeError"

subsection \<open>Configuration\<close>

definition ORDER_BOOK_LIMIT :: nat where
  "ORDER_BOOK_LIMIT = 10"

definition CURRENCY_PAIRS :: "string list" where
  "CURRENCY_PAIRS =
     [''BTC/IDR'', ''USDT/IDR'', ''ETH/IDR'', ''DOGE/IDR'',
      ''XRP/IDR'', ''ETC/IDR'', ''ADA/IDR'', ''SOL/IDR'']"

subsection \<open>The percentage change and its formatting\<close>

text \<open>Lines 72--77.\<close>

definition compute_percentage_change :: "rat \<Rightarrow> rat \<Rightarrow> rat \<Rightarrow> rat" where
  "compute_percentage_change new_price low high =
     (if new_price > 0 \<and> low > 0 then ((new_price - low) / low) * 100
      else if new_price > 0 \<and> high > 0 then ((new_price - high) / high) * 100
      else 0)"

text \<open>
  \<^verbatim>\<open>f"{x:.2f}"\<close>: the decimal numeral of \<open>x\<close> rounded to two places, ties to even,
  with a minus sign for every negative \<open>x\<close> (also one that rounds to zero).
\<close>

definition digit_char :: "nat \<Rightarrow> char" where
  "digit_char d = ''0123456789'' ! d"

function show_nat :: "nat \<Rightarrow> string" where
  "show_nat n = (if n < 10 then [digit_char n] else show_nat (n div 10) @ [digit_char (n mod 10)])"
  by pat_completeness auto
termination
  by (relation "measure id") auto

definition round_half_even :: "rat \<Rightarrow> nat" where
  "round_half_even q =
     (let f = nat \<lfloor>q\<rfloor>; r = q - of_int \<lfloor>q\<rfloor>
      in if r < 1 / 2 then f else if 1 / 2 < r then f + 1 else if even f then f else f + 1)"

definition format_2f :: "rat \<Rightarrow> string" where
  "format_2f x =
     (let n = round_half_even (\<bar>x\<bar> * 100)
      in (if x < 0 then ''-'' else '''') @ show_nat (n div 100) @ ''.''
         @ [digit_char (n mod 100 div 10), digit_char (n mod 10)])"

subsection \<open>What a request returns\<close>

text \<open>
  The outcome of the three statements \<^verbatim>\<open>session.get(url, timeout=5)\<close>,
  \<^verbatim>\<open>raise_for_status()\<close> and \<^verbatim>\<open>await response.json()\<close>: one of them raises, or the
  decoded body is there.
\<close>

datatype http_outcome = Raises exn | Body json

subsection \<open>The ticker stage (lines 56--77)\<close>

text \<open>\<^verbatim>\<open>float(ticker.get(key, default))\<close>.\<close>

definition get_float :: "pylib \<Rightarrow> json \<Rightarrow> string \<Rightarrow> json \<Rightarrow> exn + rat" where
  "get_float L ticker k d =
     (case py_get ticker k d of Inl e \<Rightarrow> Inl e | Inr v \<Rightarrow> py_float L v)"

text \<open>Lines 65--69: \<open>(new_price, high_price, low_price, volume_24h)\<close>, or the first
  exception raised.\<close>

definition ticker_fields :: "pylib \<Rightarrow> json \<Rightarrow> exn + (rat \<times> rat \<times> rat \<times> rat)" where
  "ticker_fields L ticker =
     (case get_float L ticker ''last'' (JNum 0) of Inl e \<Rightarrow> Inl e | Inr new_price \<Rightarrow>
      (case get_float L ticker ''high'' (JNum 0) of Inl e \<Rightarrow> Inl e | Inr high \<Rightarrow>
      (case get_float L ticker ''low'' (JNum 0) of Inl e \<Rightarrow> Inl e | Inr low \<Rightarrow>
      (case py_get ticker ''volume'' (JNum 0) of Inl e \<Rightarrow> Inl e | Inr v0 \<Rightarrow>
      (case get_float L ticker ''vol_idr'' v0 of Inl e \<Rightarrow> Inl e | Inr volume \<Rightarrow>
         Inr (new_price, high, low, volume))))))"

text \<open>How the stage can end without values: the \<^verbatim>\<open>return\<close> of line 62, or an
  exception on its way to the handlers of lines 139--148.\<close>

datatype abort = Returned | Raised exn

definition ticker_stage :: "pylib \<Rightarrow> http_outcome \<Rightarrow> abort + (rat \<times> rat \<times> rat \<times> rat)" where
  "ticker_stage L response_ticker =
     (case response_ticker of
        Raises e \<Rightarrow> Inl (Raised e)
      | Body data_ticker \<Rightarrow>
          if \<not> truthy data_ticker then Inl Returned
          else (case py_in ''ticker'' data_ticker of
              Inl e \<Rightarrow> Inl (Raised e)
            | Inr present \<Rightarrow>
                if \<not> present then Inl Returned
                else (case py_getitem data_ticker ''ticker'' of
                    Inl e \<Rightarrow> Inl (Raised e)
                  | Inr ticker \<Rightarrow>
                      (case ticker_fields L ticker of
                         Inl e \<Rightarrow> Inl (Raised e)
                       | Inr vals \<Rightarrow> Inr vals))))"

subsection \<open>The depth stage (lines 81--104)\<close>

text \<open>The list comprehension \<^verbatim>\<open>[[float(p), float(a)] for p, a in entries]\<close>.\<close>

fun parse_orders :: "pylib \<Rightarrow> json list \<Rightarrow> exn + (rat \<times> rat) list" where
  "parse_orders L [] = Inr []"
| "parse_orders L (x # xs) =
     (case unpack2 x of Inl e \<Rightarrow> Inl e | Inr (p, a) \<Rightarrow>
      (case py_float L p of Inl e \<Rightarrow> Inl e | Inr fp \<Rightarrow>
      (case py_float L a of Inl e \<Rightarrow> Inl e | Inr fa \<Rightarrow>
      (case parse_orders L xs of Inl e \<Rightarrow> Inl e | Inr rest \<Rightarrow> Inr ((fp, fa) # rest)))))"

text \<open>\<^verbatim>\<open>k in data_depth and isinstance(data_depth[k], list)\<close>: the entries when the
  condition holds, \<open>None\<close> when it does not.\<close>

definition side_entries :: "string \<Rightarrow> json \<Rightarrow> exn + json list option" where
  "side_entries k data_depth =
     (case py_in k data_depth of
        Inl e \<Rightarrow> Inl e
      | Inr present \<Rightarrow>
          if \<not> present then Inr None
          else (case py_getitem data_depth k of
              Inl e \<Rightarrow> Inl e
            | Inr (JArr xs) \<Rightarrow> Inr (Some xs)
            | Inr _ \<Rightarrow> Inr None))"

text \<open>
  \<^verbatim>\<open>sorted(os, key=lambda x: x[0], reverse=True)[:ORDER_BOOK_LIMIT]\<close> and its ascending
  twin. Python's sort is stable, also with \<^verbatim>\<open>reverse=True\<close>; so is \<^const>\<open>sort_key\<close>.
\<close>

definition top_bids :: "(rat \<times> rat) list \<Rightarrow> (rat \<times> rat) list" where
  "top_bids os = take ORDER_BOOK_LIMIT (sort_key (\<lambda>x. - fst x) os)"

definition top_asks :: "(rat \<times> rat) list \<Rightarrow> (rat \<times> rat) list" where
  "top_asks os = take ORDER_BOOK_LIMIT (sort_key fst os)"

text \<open>Lines 89--92 and 94--97: the new value of \<^verbatim>\<open>buy_orders\<close> (of \<^verbatim>\<open>sell_orders\<close>);
  the \<^verbatim>\<open>else\<close> branch leaves the initial \<^verbatim>\<open>[]\<close>.\<close>

definition buy_side :: "pylib \<Rightarrow> json \<Rightarrow> exn + (rat \<times> rat) list" where
  "buy_side L data_depth =
     (case side_entries ''buy'' data_depth of
        Inl e \<Rightarrow> Inl e
      | Inr None \<Rightarrow> Inr []
      | Inr (Some xs) \<Rightarrow>
          (case parse_orders L xs of Inl e \<Rightarrow> Inl e | Inr os \<Rightarrow> Inr (top_bids os)))"

definition sell_side :: "pylib \<Rightarrow> json \<Rightarrow> exn + (rat \<times> rat) list" where
  "sell_side L data_depth =
     (case side_entries ''sell'' data_depth of
        Inl e \<Rightarrow> Inl e
      | Inr None \<Rightarrow> Inr []
      | Inr (Some xs) \<Rightarrow>
          (case parse_orders L xs of Inl e \<Rightarrow> Inl e | Inr os \<Rightarrow> Inr (top_asks os)))"

text \<open>
  The body of the inner \<^verbatim>\<open>try\<close>: the values of \<^verbatim>\<open>buy_orders\<close> and \<^verbatim>\<open>sell_orders\<close>
  when control leaves it, and the exception that left it, if any. \<^verbatim>\<open>buy_orders\<close> is
  assigned before the \<^verbatim>\<open>sell\<close> block runs.
\<close>

definition depth_try ::
  "pylib \<Rightarrow> http_outcome \<Rightarrow> (rat \<times> rat) list \<times> (rat \<times> rat) list \<times> exn option" where
  "depth_try L response_depth =
     (case response_depth of
        Raises e \<Rightarrow> ([], [], Some e)
      | Body data_depth \<Rightarrow>
          (case buy_side L data_depth of
             Inl e \<Rightarrow> ([], [], Some e)
           | Inr buy \<Rightarrow>
               (case sell_side L data_depth of
                  Inl e \<Rightarrow> (buy, [], Some e)
                | Inr sell \<Rightarrow> (buy, sell, None))))"

text \<open>The \<^verbatim>\<open>except\<close> clauses of lines 99--104.\<close>

fun depth_handled :: "exn \<Rightarrow> bool" where
  "depth_handled ClientError = True"
| "depth_handled JSONDecodeError = True"
| "depth_handled TypeError = True"
| "depth_handled IndexError = True"
| "depth_handled ValueError = True"
| "depth_handled e = False"

subsection \<open>The shared state\<close>

text \<open>
  \<^verbatim>\<open>current_data\<close> maps a key to \<open>None\<close> for the empty dict \<^verbatim>\<open>{}\<close> it starts with, or
  to the payload stored last. \<^verbatim>\<open>connected_clients\<close> is the set of open connections; a
  connection is named by a number.
\<close>

type_synonym client = nat

record state =
  current_data :: "string \<Rightarrow> payload option option"
  connected_clients :: "client set"

definition initial_state :: state where
  "initial_state =
     \<lparr>current_data = map_of (map (\<lambda>symbol. (symbol, None)) CURRENCY_PAIRS),
      connected_clients = {}\<rparr>"

text \<open>Line 185, lines 207--209, and the \<^verbatim>\<open>connected_clients.remove(client_ws)\<close> of
  lines 134 and 137 (\<^verbatim>\<open>set.remove\<close> raises \<^verbatim>\<open>KeyError\<close> on a missing element).\<close>

definition register :: "client \<Rightarrow> state \<Rightarrow> state" where
  "register c st = st\<lparr>connected_clients := insert c (connected_clients st)\<rparr>"

definition unregister :: "client \<Rightarrow> state \<Rightarrow> state" where
  "unregister c st =
     (if c \<in> connected_clients st
      then st\<lparr>connected_clients := connected_clients st - {c}\<rparr> else st)"

definition broadcaster_remove :: "client \<Rightarrow> state \<Rightarrow> exn + state" where
  "broadcaster_remove c st =
     (if c \<in> connected_clients st
      then Inr (st\<lparr>connected_clients := connected_clients st - {c}\<rparr>) else Inl KeyError)"

text \<open>
  What connection handlers can do to the registry while a broadcast is suspended in a
  \<^verbatim>\<open>send_text\<close>: a new connection reaches line 185, or an open one reaches its
  \<^verbatim>\<open>finally\<close> block.
\<close>

datatype event = Connect client | Disconnect client

fun apply_event :: "state \<Rightarrow> event \<Rightarrow> state" where
  "apply_event st (Connect c) = register c st"
| "apply_event st (Disconnect c) = unregister c st"

datatype send_outcome = Delivered | Failed exn

text \<open>A call of \<^verbatim>\<open>send_text\<close>: by the replay of a new connection or by a broadcast,
  on which client, and the text. A call that raises is recorded too.\<close>

datatype origin = Replay | Live

type_synonym sent = "origin \<times> client \<times> string"

subsection \<open>The broadcast (lines 126--137)\<close>

text \<open>
  The loop over \<^verbatim>\<open>list(connected_clients)\<close>. \<open>sending c\<close> says what happens while
  the send to \<open>c\<close> is awaited and how the send ends. Both \<^verbatim>\<open>except\<close> clauses remove
  the client; an exception raised there leaves the loop.
\<close>

fun send_loop ::
  "(client \<Rightarrow> event list \<times> send_outcome) \<Rightarrow> string \<Rightarrow> client list \<Rightarrow> state \<Rightarrow>
     state \<times> sent list \<times> exn option" where
  "send_loop sending message [] st = (st, [], None)"
| "send_loop sending message (c # cs) st =
     (let st1 = foldl apply_event st (fst (sending c))
      in case snd (sending c) of
           Delivered \<Rightarrow>
             (case send_loop sending message cs st1 of
                (st2, tr, ex) \<Rightarrow> (st2, (Live, c, message) # tr, ex))
         | Failed e \<Rightarrow>
             (case broadcaster_remove c st1 of
                Inl e' \<Rightarrow> (st1, [(Live, c, message)], Some e')
              | Inr st2 \<Rightarrow>
                  (case send_loop sending message cs st2 of
                     (st3, tr, ex) \<Rightarrow> (st3, (Live, c, message) # tr, ex))))"

subsection \<open>\<^verbatim>\<open>fetch_and_broadcast_data\<close> (lines 45--148)\<close>

text \<open>
  What one call for the currency pair \<open>pair\<close> gets from outside. \<open>list_clients\<close> is
  the order in which \<^verbatim>\<open>list(connected_clients)\<close> lists the set.
\<close>

record fetch_env =
  response_ticker :: http_outcome
  response_depth :: http_outcome
  now :: string
  list_clients :: "client set \<Rightarrow> client list"
  sending :: "client \<Rightarrow> event list \<times> send_outcome"

text \<open>
  How the call ended: at the \<^verbatim>\<open>return\<close> of line 62; in a handler of lines 139--148
  before a payload was assembled; or after the payload was stored, with the exception
  that ended the broadcast early, if any. The function itself never raises: line 147
  catches every \<^verbatim>\<open>Exception\<close>.
\<close>

datatype outcome = NoData | Caught exn | Published payload "exn option"

definition fetch_and_broadcast_data ::
  "pylib \<Rightarrow> fetch_env \<Rightarrow> string \<Rightarrow> state \<Rightarrow> state \<times> sent list \<times> outcome" where
  "fetch_and_broadcast_data L env pair st =
     (case ticker_stage L (response_ticker env) of
        Inl Returned \<Rightarrow> (st, [], NoData)
      | Inl (Raised e) \<Rightarrow> (st, [], Caught e)
      | Inr (new_price, high, low, volume) \<Rightarrow>
          (case depth_try L (response_depth env) of
             (buy, sell, ex) \<Rightarrow>
               (case (case ex of None \<Rightarrow> None
                              | Some e \<Rightarrow> if depth_handled e then None else Some e) of
                  Some e \<Rightarrow> (st, [], Caught e)
                | None \<Rightarrow>
                    (let p = \<lparr>symbol = pair, price = new_price, high_price = high,
                               low_price = low,
                               percentage_change =
                                 format_2f (compute_percentage_change new_price low high),
                               volume_24h = volume, buy_orders = buy, sell_orders = sell,
                               timestamp = now env\<rparr>;
                         st1 = st\<lparr>current_data := (current_data st)(pair := Some (Some p))\<rparr>
                     in case send_loop (sending env) (dumps L p)
                               (list_clients env (connected_clients st1)) st1 of
                          (st2, tr, ex2) \<Rightarrow> (st2, tr, Published p ex2)))))"

subsection \<open>\<^verbatim>\<open>websocket_endpoint\<close> (lines 183--209)\<close>

text \<open>\<^verbatim>\<open>current_data[symbol]\<close>.\<close>

definition lookup_cache :: "state \<Rightarrow> string \<Rightarrow> exn + payload option" where
  "lookup_cache st s = (case current_data st s of None \<Rightarrow> Inl KeyError | Some v \<Rightarrow> Inr v)"

text \<open>
  Calls of \<^const>\<open>fetch_and_broadcast_data\<close> that reach their cache update and broadcast
  one after the other (each from the arrival of its last response on).
\<close>

fun run_fetches :: "pylib \<Rightarrow> (string \<times> fetch_env) list \<Rightarrow> state \<Rightarrow> state \<times> sent list" where
  "run_fetches L [] st = (st, [])"
| "run_fetches L ((pair, env) # calls) st =
     (case fetch_and_broadcast_data L env pair st of
        (st1, tr1, oc) \<Rightarrow>
          (case run_fetches L calls st1 of (st2, tr2) \<Rightarrow> (st2, tr1 @ tr2)))"

text \<open>
  The replay loop of lines 189--191. \<open>W s\<close> says which fetches of the producer task
  complete while the send for symbol \<open>s\<close> is awaited, and how that send ends.
\<close>

fun replay_loop ::
  "pylib \<Rightarrow> (string \<Rightarrow> (string \<times> fetch_env) list \<times> send_outcome) \<Rightarrow> client \<Rightarrow>
     string list \<Rightarrow> state \<Rightarrow> state \<times> sent list \<times> exn option" where
  "replay_loop L W c [] st = (st, [], None)"
| "replay_loop L W c (s # ss) st =
     (case lookup_cache st s of
        Inl e \<Rightarrow> (st, [], Some e)
      | Inr None \<Rightarrow> replay_loop L W c ss st
      | Inr (Some p) \<Rightarrow>
          (case run_fetches L (fst (W s)) st of
             (st1, tr1) \<Rightarrow>
               (case snd (W s) of
                  Failed e \<Rightarrow> (st1, (Replay, c, dumps L p) # tr1, Some e)
                | Delivered \<Rightarrow>
                    (case replay_loop L W c ss st1 of
                       (st2, tr2, ex) \<Rightarrow> (st2, (Replay, c, dumps L p) # tr1 @ tr2, ex)))))"

text \<open>
  The handler sits in \<^verbatim>\<open>receive_text\<close> for as long as the connection is open, so it is
  modelled in two parts. The first runs from \<^verbatim>\<open>accept\<close> to the first \<^verbatim>\<open>receive_text\<close>:
  it registers the client and replays the cache; an exception on the way goes through
  the handlers of lines 201--204 to the \<^verbatim>\<open>finally\<close> block. The second is the
  \<^verbatim>\<open>finally\<close> block, reached when \<^verbatim>\<open>receive_text\<close> raises.
\<close>

datatype phase = Holding | Closed exn

definition websocket_endpoint_connect ::
  "pylib \<Rightarrow> (string \<Rightarrow> (string \<times> fetch_env) list \<times> send_outcome) \<Rightarrow> client \<Rightarrow> state \<Rightarrow>
     state \<times> sent list \<times> phase" where
  "websocket_endpoint_connect L W c st =
     (case replay_loop L W c CURRENCY_PAIRS (register c st) of
        (st1, tr, ex) \<Rightarrow>
          (case ex of
             None \<Rightarrow> (st1, tr, Holding)
           | Some e \<Rightarrow> (unregister c st1, tr, Closed e)))"

definition websocket_endpoint_disconnect :: "client \<Rightarrow> state \<Rightarrow> state" where
  "websocket_endpoint_disconnect c st = unregister c st"

subsection \<open>The states the program can be in\<close>

text \<open>
  \<^verbatim>\<open>producer_task\<close> calls \<^verbatim>\<open>fetch_and_broadcast_data\<close> for the symbols of
  \<^verbatim>\<open>CURRENCY_PAIRS\<close> only (line 164), forever; connections come and go.
\<close>

inductive reachable :: "pylib \<Rightarrow> state \<Rightarrow> bool" for L :: pylib where
  start: "reachable L initial_state"
| fetch: "reachable L st \<Longrightarrow> pair \<in> set CURRENCY_PAIRS \<Longrightarrow>
     fetch_and_broadcast_data L env pair st = (st', tr, oc) \<Longrightarrow> reachable L st'"
| connect: "reachable L st \<Longrightarrow>
     (\<forall>s. \<forall>call \<in> set (fst (W s)). fst call \<in> set CURRENCY_PAIRS) \<Longrightarrow>
     websocket_endpoint_connect L W c st = (st', tr, ph) \<Longrightarrow> reachable L st'"
| disconnect: "reachable L st \<Longrightarrow> reachable L (websocket_endpoint_disconnect c st)"

subsection \<open>Properties of what a client is sent\<close>

text \<open>No broadcast message to \<open>c\<close> is followed by a replay message to \<open>c\<close>.\<close>

fun replay_first :: "client \<Rightarrow> sent list \<Rightarrow> bool" where
  "replay_first c [] = True"
| "replay_first c ((Replay, c', m) # tr) = replay_first c tr"
| "replay_first c ((Live, c', m) # tr) =
     (if c' = c then list_all (\<lambda>x. \<not> (fst x = Replay \<and> fst (snd x) = c)) tr
      else replay_first c tr)"

text \<open>A numeral with exactly two decimal places: an optional sign, at least one digit,
  a point, two digits.\<close>

definition is_digit :: "char \<Rightarrow> bool" where
  "is_digit ch = (ch \<in> set ''0123456789'')"




subsection \<open>Sample inputs\<close>

text \<open>
  A library for the examples: \<open>float\<close> reads unsigned decimal integers, and
  \<open>dumps\<close> writes the symbol, the percentage change and the time stamp.
\<close>

fun digits_value :: "nat \<Rightarrow> string \<Rightarrow> nat option" where
  "digits_value acc [] = Some acc"
| "digits_value acc (ch # cs) =
     (if is_digit ch then digits_value (10 * acc + (of_char ch - 48)) cs else None)"

definition sample_lib :: pylib where
  "sample_lib =
     \<lparr>float_of_str = (\<lambda>s. if s = [] then None else map_option of_nat (digits_value 0 s)),
      dumps = (\<lambda>p. symbol p @ '' '' @ percentage_change p @ '' '' @ timestamp p)\<rparr>"

definition sample_ticker :: json where
  "sample_ticker =
     JObj [(''ticker'', JObj [(''last'', JStr ''110''), (''high'', JStr ''120''),
                              (''low'', JStr ''100''), (''vol_idr'', JStr ''5000'')])]"

definition sample_depth :: json where
  "sample_depth =
     JObj [(''buy'', JArr [JArr [JStr ''99'', JStr ''2''], JArr [JStr ''100'', JStr ''1'']]),
           (''sell'', JArr [JArr [JStr ''112'', JStr ''3''], JArr [JStr ''111'', JStr ''4'']])]"

text \<open>A call in which nothing fails and nothing happens during the sends.\<close>

definition quiet :: "client \<Rightarrow> event list \<times> send_outcome" where
  "quiet c = ([], Delivered)"

definition sample_env :: fetch_env where
  "sample_env =
     \<lparr>response_ticker = Body sample_ticker, response_depth = Body sample_depth,
      now = ''2025-01-01T00:00:00'', list_clients = sorted_list_of_set, sending = quiet\<rparr>"

definition three_clients :: state where
  "three_clients = initial_state\<lparr>connected_clients := {1, 2, 3}\<rparr>"

text \<open>The payload the sample responses give.\<close>

definition sample_payload :: "string \<Rightarrow> payload" where
  "sample_payload pair =
     \<lparr>symbol = pair, price = 110, high_price = 120, low_price = 100,
      percentage_change = ''10.00'', volume_24h = 5000,
      buy_orders = [(100, 1), (99, 2)], sell_orders = [(111, 4), (112, 3)],
      timestamp = ''2025-01-01T00:00:00''\<rparr>"



text \<open>The keys of \<^verbatim>\<open>current_data\<close> are the configured symbols.\<close>

definition configured_keys :: "state \<Rightarrow> bool" where
  "configured_keys st = (dom (current_data st) = set CURRENCY_PAIRS)"

text \<open>States with one and with two symbols cached, and no client.\<close>

definition one_cached :: state where
  "one_cached =
     initial_state\<lparr>current_data :=
       (current_data initial_state)(''BTC/IDR'' := Some (Some (sample_payload ''BTC/IDR'')))\<rparr>"

definition two_cached :: state where
  "two_cached =
     one_cached\<lparr>current_data :=
       (current_data one_cached)(''ETH/IDR'' := Some (Some (sample_payload ''ETH/IDR'')))\<rparr>"

text \<open>
  What the specification says a new connection is sent: one message per symbol that has
  a cached payload, in the order of \<^const>\<open>CURRENCY_PAIRS\<close>.
\<close>

definition expected_replay :: "pylib \<Rightarrow> client \<Rightarrow> state \<Rightarrow> sent list" where
  "expected_replay L c st =
     concat (map (\<lambda>s. case current_data st s of
                          Some (Some p) \<Rightarrow> [(Replay, c, dumps L p)]
                        | _ \<Rightarrow> []) CURRENCY_PAIRS)"

text \<open>
  A connection during whose first replay send a fetch of \<open>ETH/IDR\<close> completes, two
  seconds after the cached payloads were made.
\<close>

definition racing :: "string \<Rightarrow> (string \<times> fetch_env) list \<times> send_outcome" where
  "racing s =
     (if s = ''BTC/IDR'' then ([(''ETH/IDR'', sample_env\<lparr>now := ''2025-01-01T00:00:02''\<rparr>)], Delivered)
      else ([], Delivered))"

text \<open>
  A broadcast to clients 1, 2 and 3 during which client 2 goes away: while the send to
  client 1 is awaited, the handler of client 2 reaches its \<^verbatim>\<open>finally\<close> block; the send
  to client 2 then raises \<^verbatim>\<open>WebSocketDisconnect\<close>.
\<close>

definition disconnect_race :: "client \<Rightarrow> event list \<times> send_outcome" where
  "disconnect_race c =
     (if c = 1 then ([Disconnect 2], Delivered)
      else if c = 2 then ([], Failed WebSocketDisconnect)
      else ([], Delivered))"

definition race_env :: fetch_env where
  "race_env = sample_env\<lparr>sending := disconnect_race\<rparr>"

section \<open>Lemmas\<close>

subsection \<open>Formatting and sorting\<close>

lemma format_2f_examples:
  "format_2f 10 = ''10.00''"
  "format_2f (- (25 / 3)) = ''-8.33''"
  "format_2f 0 = ''0.00''"
  "format_2f (1 / 8) = ''0.12''"
  "format_2f (3 / 8) = ''0.38''"
  "format_2f (- (1 / 1000)) = ''-0.00''"
  by code_simp+











subsection \<open>The stages\<close>




lemma parse_orders_error: "parse_orders L xs = Inl e \<Longrightarrow> depth_handled e"
proof (induction xs)
  case Nil
  then show ?case by simp
next
  case (Cons x xs)
  have unpack: "\<And>e'. unpack2 x = Inl e' \<Longrightarrow> depth_handled e'"
    by (cases x) (auto split: list.splits)
  have fl: "\<And>j e'. py_float L j = Inl e' \<Longrightarrow> depth_handled e'"
    subgoal for j e' by (cases j) (auto split: option.splits)
    done
  from Cons unpack fl show ?case
    by (auto split: sum.splits prod.splits)
qed

lemma side_entries_error: "side_entries k d = Inl e \<Longrightarrow> depth_handled e"
  by (cases d)
    (auto simp: side_entries_def split: if_splits option.splits sum.splits json.splits)

lemma depth_body_error:
  assumes "depth_try L (Body d) = (buy, sell, Some e)"
  shows "depth_handled e"
proof -
  have b: "\<And>e'. buy_side L d = Inl e' \<Longrightarrow> depth_handled e'"
    by (auto simp: buy_side_def split: sum.splits option.splits
        dest: side_entries_error parse_orders_error)
  have s: "\<And>e'. sell_side L d = Inl e' \<Longrightarrow> depth_handled e'"
    by (auto simp: sell_side_def split: sum.splits option.splits
        dest: side_entries_error parse_orders_error)
  from assms b s show ?thesis
    by (auto simp: depth_try_def split: sum.splits)
qed

subsection \<open>The broadcast\<close>

lemma current_data_apply_events:
  "current_data (foldl apply_event st evs) = current_data st"
proof (induction evs arbitrary: st)
  case Nil
  show ?case by simp
next
  case (Cons ev evs)
  have "current_data (apply_event st ev) = current_data st"
    by (cases ev) (simp_all add: register_def unregister_def)
  with Cons show ?case by simp
qed

lemma send_loop_current_data:
  "send_loop S m cs st = (st', tr, ex) \<Longrightarrow> current_data st' = current_data st"
proof (induction cs arbitrary: st st' tr ex)
  case Nil
  then show ?case by simp
next
  case (Cons c cs)
  let ?st1 = "foldl apply_event st (fst (S c))"
  have c1: "current_data ?st1 = current_data st"
    by (rule current_data_apply_events)
  show ?case
  proof (cases "snd (S c)")
    case Delivered
    with Cons.prems obtain tr' where "send_loop S m cs ?st1 = (st', tr', ex)"
      by (auto simp: Let_def split: prod.splits)
    with Cons.IH c1 show ?thesis by simp
  next
    case (Failed e)
    show ?thesis
    proof (cases "broadcaster_remove c ?st1")
      case (Inl e')
      with Cons.prems Failed have "st' = ?st1" by (simp add: Let_def)
      with c1 show ?thesis by simp
    next
      case (Inr st2)
      then have c2: "current_data st2 = current_data ?st1"
        by (auto simp: broadcaster_remove_def split: if_splits)
      from Cons.prems Failed Inr obtain tr' where "send_loop S m cs st2 = (st', tr', ex)"
        by (auto simp: Let_def split: prod.splits)
      with Cons.IH c1 c2 show ?thesis by simp
    qed
  qed
qed

lemma send_loop_messages:
  "send_loop S m cs st = (st', tr, ex) \<Longrightarrow> x \<in> set tr \<Longrightarrow>
     \<exists>c \<in> set cs. x = (Live, c, m)"
proof (induction cs arbitrary: st st' tr ex)
  case Nil
  then show ?case by simp
next
  case (Cons c cs)
  let ?st1 = "foldl apply_event st (fst (S c))"
  show ?case
  proof (cases "snd (S c)")
    case Delivered
    with Cons.prems obtain tr' where
      "send_loop S m cs ?st1 = (st', tr', ex)" "tr = (Live, c, m) # tr'"
      by (auto simp: Let_def split: prod.splits)
    with Cons.IH Cons.prems(2) show ?thesis by auto
  next
    case (Failed e)
    show ?thesis
    proof (cases "broadcaster_remove c ?st1")
      case (Inl e')
      with Cons.prems Failed show ?thesis by (auto simp: Let_def)
    next
      case (Inr st2)
      with Cons.prems Failed obtain tr' where
        "send_loop S m cs st2 = (st', tr', ex)" "tr = (Live, c, m) # tr'"
        by (auto simp: Let_def split: prod.splits)
      with Cons.IH Cons.prems(2) show ?thesis by auto
    qed
  qed
qed

subsection \<open>The fetch\<close>

lemma fetch_aborted:
  "ticker_stage L (response_ticker env) = Inl a \<Longrightarrow>
     fetch_and_broadcast_data L env pair st =
       (st, [], case a of Returned \<Rightarrow> NoData | Raised e \<Rightarrow> Caught e)"
  by (cases a) (simp_all add: fetch_and_broadcast_data_def)

lemma fetch_published:
  assumes "fetch_and_broadcast_data L env pair st = (st', tr, Published p ex)"
  obtains new_price high low volume buy sell dex where
    "ticker_stage L (response_ticker env) = Inr (new_price, high, low, volume)"
    "depth_try L (response_depth env) = (buy, sell, dex)"
    "p = \<lparr>symbol = pair, price = new_price, high_price = high, low_price = low,
          percentage_change = format_2f (compute_percentage_change new_price low high),
          volume_24h = volume, buy_orders = buy, sell_orders = sell, timestamp = now env\<rparr>"
    "send_loop (sending env) (dumps L p) (list_clients env (connected_clients st))
       (st\<lparr>current_data := (current_data st)(pair := Some (Some p))\<rparr>) = (st', tr, ex)"
  using assms
  by (auto simp: fetch_and_broadcast_data_def Let_def
      split: sum.splits abort.splits prod.splits option.splits if_splits)

lemma fetch_unpublished:
  assumes "fetch_and_broadcast_data L env pair st = (st', tr, oc)"
    and "\<And>p ex. oc \<noteq> Published p ex"
  shows "st' = st \<and> tr = []"
  using assms
  by (auto simp: fetch_and_broadcast_data_def Let_def
      split: sum.splits abort.splits prod.splits option.splits if_splits)

subsection \<open>The sample run\<close>

lemma sample_float:
  "float_of_str sample_lib ''110'' = Some 110" "float_of_str sample_lib ''120'' = Some 120"
  "float_of_str sample_lib ''100'' = Some 100" "float_of_str sample_lib ''5000'' = Some 5000"
  "float_of_str sample_lib ''99'' = Some 99" "float_of_str sample_lib ''111'' = Some 111"
  "float_of_str sample_lib ''112'' = Some 112" "float_of_str sample_lib ''1'' = Some 1"
  "float_of_str sample_lib ''2'' = Some 2" "float_of_str sample_lib ''3'' = Some 3"
  "float_of_str sample_lib ''4'' = Some 4"
  by (simp_all add: sample_lib_def is_digit_def)


lemma sample_ticker_stage:
  "ticker_stage sample_lib (Body sample_ticker) = Inr (110, 120, 100, 5000)"
  by (simp add: ticker_stage_def sample_ticker_def ticker_fields_def get_float_def sample_float)

lemma sample_buy_side: "buy_side sample_lib sample_depth = Inr [(100, 1), (99, 2)]"
  by (simp add: buy_side_def side_entries_def sample_depth_def sample_float top_bids_def
      ORDER_BOOK_LIMIT_def)

lemma sample_sell_side: "sell_side sample_lib sample_depth = Inr [(111, 4), (112, 3)]"
  by (simp add: sell_side_def side_entries_def sample_depth_def sample_float top_asks_def
      ORDER_BOOK_LIMIT_def)

lemma sample_depth_try:
  "depth_try sample_lib (Body sample_depth) = ([(100, 1), (99, 2)], [(111, 4), (112, 3)], None)"
  by (simp add: depth_try_def sample_buy_side sample_sell_side)

lemma sample_percentage: "format_2f (compute_percentage_change 110 100 120) = ''10.00''"
proof -
  have "compute_percentage_change 110 100 120 = 10"
    by (simp add: compute_percentage_change_def)
  then show ?thesis by (simp add: format_2f_examples)
qed

lemma sample_list_clients: "sorted_list_of_set {1::nat, 2, 3} = [1, 2, 3]"
  by code_simp

lemma sample_fetch:
  "fetch_and_broadcast_data sample_lib sample_env pair three_clients =
     (three_clients\<lparr>current_data :=
        (current_data three_clients)(pair := Some (Some (sample_payload pair)))\<rparr>,
      [(Live, 1, dumps sample_lib (sample_payload pair)),
       (Live, 2, dumps sample_lib (sample_payload pair)),
       (Live, 3, dumps sample_lib (sample_payload pair))],
      Published (sample_payload pair) None)"
  by (simp add: fetch_and_broadcast_data_def sample_env_def sample_ticker_stage
      sample_depth_try sample_percentage sample_payload_def three_clients_def
      sample_list_clients quiet_def Let_def)

subsection \<open>The keys of the cache\<close>

lemma initial_keys: "configured_keys initial_state"
  by (simp add: configured_keys_def initial_state_def dom_map_of_conv_image_fst image_image)

lemma fetch_keys:
  assumes "fetch_and_broadcast_data L env pair st = (st', tr, oc)"
    and "pair \<in> set CURRENCY_PAIRS"
    and "configured_keys st"
  shows "configured_keys st'"
proof (cases "\<exists>p ex. oc = Published p ex")
  case True
  then obtain p ex where oc: "oc = Published p ex" by blast
  from assms(1) [unfolded oc] obtain st1 where
    "send_loop (sending env) (dumps L p) (list_clients env (connected_clients st)) st1 =
       (st', tr, ex)"
    "st1 = st\<lparr>current_data := (current_data st)(pair := Some (Some p))\<rparr>"
    by (elim fetch_published) simp
  then have "current_data st' = (current_data st)(pair := Some (Some p))"
    by (simp add: send_loop_current_data)
  with assms(2,3) show ?thesis by (auto simp: configured_keys_def)
next
  case False
  with assms(1) have "st' = st" by (simp add: fetch_unpublished)
  with assms(3) show ?thesis by simp
qed

lemma run_fetches_keys:
  "run_fetches L calls st = (st', tr) \<Longrightarrow> \<forall>call \<in> set calls. fst call \<in> set CURRENCY_PAIRS \<Longrightarrow>
     configured_keys st \<Longrightarrow>
     configured_keys st'"
proof (induction calls arbitrary: st st' tr)
  case Nil
  then show ?case by simp
next
  case (Cons call calls)
  obtain pair env where call: "call = (pair, env)" by (cases call)
  obtain st1 tr1 oc where f: "fetch_and_broadcast_data L env pair st = (st1, tr1, oc)"
    by (cases "fetch_and_broadcast_data L env pair st")
  obtain st2 tr2 where r: "run_fetches L calls st1 = (st2, tr2)"
    by (cases "run_fetches L calls st1")
  from Cons.prems(1) call f r have "st' = st2" by simp
  moreover from f Cons.prems(2,3) call have "configured_keys st1"
    by (auto intro: fetch_keys)
  ultimately show ?case using Cons.IH [OF r] Cons.prems(2) by simp
qed

lemma replay_loop_keys:
  "replay_loop L W c syms st = (st', tr, ex) \<Longrightarrow>
     \<forall>s. \<forall>call \<in> set (fst (W s)). fst call \<in> set CURRENCY_PAIRS \<Longrightarrow>
     configured_keys st \<Longrightarrow>
     configured_keys st'"
proof (induction syms arbitrary: st st' tr ex)
  case Nil
  then show ?case by simp
next
  case (Cons s syms)
  show ?case
  proof (cases "lookup_cache st s")
    case (Inl e)
    with Cons.prems show ?thesis by simp
  next
    case (Inr v)
    show ?thesis
    proof (cases v)
      case None
      with Inr Cons.prems(1) have "replay_loop L W c syms st = (st', tr, ex)" by simp
      with Cons.IH Cons.prems(2,3) show ?thesis by blast
    next
      case (Some p)
      obtain st1 tr1 where r: "run_fetches L (fst (W s)) st = (st1, tr1)"
        by (cases "run_fetches L (fst (W s)) st")
      with Cons.prems(2,3) have k1: "configured_keys st1"
        by (auto intro: run_fetches_keys)
      show ?thesis
      proof (cases "snd (W s)")
        case Delivered
        with Inr Some r Cons.prems(1) obtain tr2 where
          "replay_loop L W c syms st1 = (st', tr2, ex)"
          by (auto split: prod.splits)
        with Cons.IH Cons.prems(2) k1 show ?thesis by blast
      next
        case (Failed e)
        with Inr Some r Cons.prems(1) have "st' = st1" by simp
        with k1 show ?thesis by simp
      qed
    qed
  qed
qed

lemma connect_keys:
  assumes "websocket_endpoint_connect L W c st = (st', tr, ph)"
    and "\<forall>s. \<forall>call \<in> set (fst (W s)). fst call \<in> set CURRENCY_PAIRS"
    and "configured_keys st"
  shows "configured_keys st'"
proof -
  obtain st1 tr1 ex where r: "replay_loop L W c CURRENCY_PAIRS (register c st) = (st1, tr1, ex)"
    by (cases "replay_loop L W c CURRENCY_PAIRS (register c st)")
  have "configured_keys (register c st)"
    using assms(3) by (simp add: register_def configured_keys_def)
  with r assms(2) have "configured_keys st1"
    by (rule replay_loop_keys)
  moreover have "configured_keys (unregister c st1) = configured_keys st1"
    by (simp add: unregister_def configured_keys_def)
  moreover from assms(1) r have "st' = st1 \<or> st' = unregister c st1"
    by (auto simp: websocket_endpoint_connect_def split: option.splits)
  ultimately show ?thesis by auto
qed

lemma reachable_keys: "reachable L st \<Longrightarrow> configured_keys st"
proof (induction rule: reachable.induct)
  case start
  show ?case by (rule initial_keys)
next
  case (fetch st pair env st' tr oc)
  then show ?case by (auto intro: fetch_keys)
next
  case (connect st W c st' tr ph)
  then show ?case by (auto intro: connect_keys)
next
  case (disconnect st c)
  then show ?case
    by (simp add: websocket_endpoint_disconnect_def unregister_def configured_keys_def)
qed

subsection \<open>A broadcast that nothing disturbs\<close>

lemma send_loop_undisturbed:
  "\<forall>c \<in> set cs. fst (S c) = [] \<Longrightarrow> distinct cs \<Longrightarrow> set cs \<subseteq> connected_clients st \<Longrightarrow>
     send_loop S m cs st =
       (st\<lparr>connected_clients := connected_clients st - {c \<in> set cs. snd (S c) \<noteq> Delivered}\<rparr>,
        map (\<lambda>c. (Live, c, m)) cs, None)"
proof (induction cs arbitrary: st)
  case Nil
  then show ?case by simp
next
  case (Cons c cs)
  from Cons.prems have quiet: "fst (S c) = []" and rest: "\<forall>c \<in> set cs. fst (S c) = []"
    and dist: "distinct cs" and new: "c \<notin> set cs" and sub: "set cs \<subseteq> connected_clients st"
    and mem: "c \<in> connected_clients st"
    by auto
  show ?case
  proof (cases "snd (S c)")
    case Delivered
    then have "{c' \<in> set (c # cs). snd (S c') \<noteq> Delivered} = {c' \<in> set cs. snd (S c') \<noteq> Delivered}"
      by auto
    with Delivered quiet Cons.IH [OF rest dist sub] show ?thesis by simp
  next
    case (Failed e)
    let ?st2 = "st\<lparr>connected_clients := connected_clients st - {c}\<rparr>"
    have rm: "broadcaster_remove c st = Inr ?st2"
      using mem by (simp add: broadcaster_remove_def)
    have sub2: "set cs \<subseteq> connected_clients ?st2"
      using sub new by auto
    have "connected_clients st - {c} - {c' \<in> set cs. snd (S c') \<noteq> Delivered} =
          connected_clients st - {c' \<in> set (c # cs). snd (S c') \<noteq> Delivered}"
      using Failed by auto
    with Failed quiet rm Cons.IH [OF rest dist sub2] show ?thesis by simp
  qed
qed

lemma fetch_undisturbed:
  assumes tick: "ticker_stage L (response_ticker env) = Inr (new_price, high, low, volume)"
    and depth: "depth_try L (response_depth env) = (buy, sell, dex)"
    and handled: "dex = None \<or> (\<exists>e. dex = Some e \<and> depth_handled e)"
    and listing: "set (list_clients env (connected_clients st)) = connected_clients st"
      "distinct (list_clients env (connected_clients st))"
    and quiet: "\<forall>c \<in> connected_clients st. fst (sending env c) = []"
    and p: "p = \<lparr>symbol = pair, price = new_price, high_price = high, low_price = low,
          percentage_change = format_2f (compute_percentage_change new_price low high),
          volume_24h = volume, buy_orders = buy, sell_orders = sell, timestamp = now env\<rparr>"
  shows "fetch_and_broadcast_data L env pair st =
     (st\<lparr>current_data := (current_data st)(pair := Some (Some p)),
         connected_clients :=
           connected_clients st - {c \<in> connected_clients st. snd (sending env c) \<noteq> Delivered}\<rparr>,
      map (\<lambda>c. (Live, c, dumps L p)) (list_clients env (connected_clients st)),
      Published p None)"
proof -
  let ?st1 = "st\<lparr>current_data := (current_data st)(pair := Some (Some p))\<rparr>"
  let ?cs = "list_clients env (connected_clients st)"
  have "send_loop (sending env) (dumps L p) ?cs ?st1 =
      (?st1\<lparr>connected_clients :=
          connected_clients ?st1 - {c \<in> set ?cs. snd (sending env c) \<noteq> Delivered}\<rparr>,
       map (\<lambda>c. (Live, c, dumps L p)) ?cs, None)"
    using listing quiet by (intro send_loop_undisturbed) auto
  with tick depth handled listing(1) show ?thesis
    by (auto simp: fetch_and_broadcast_data_def Let_def p)
qed

lemma sample_fetch_quiet:
  assumes "finite (connected_clients st)"
  shows "fetch_and_broadcast_data sample_lib (sample_env\<lparr>now := t\<rparr>) pair st =
     (st\<lparr>current_data :=
          (current_data st)(pair := Some (Some ((sample_payload pair)\<lparr>timestamp := t\<rparr>)))\<rparr>,
      map (\<lambda>c. (Live, c, dumps sample_lib ((sample_payload pair)\<lparr>timestamp := t\<rparr>)))
        (sorted_list_of_set (connected_clients st)),
      Published ((sample_payload pair)\<lparr>timestamp := t\<rparr>) None)"
proof -
  have "fetch_and_broadcast_data sample_lib (sample_env\<lparr>now := t\<rparr>) pair st =
     (st\<lparr>current_data :=
          (current_data st)(pair := Some (Some ((sample_payload pair)\<lparr>timestamp := t\<rparr>))),
         connected_clients := connected_clients st -
           {c \<in> connected_clients st. snd (sending (sample_env\<lparr>now := t\<rparr>) c) \<noteq> Delivered}\<rparr>,
      map (\<lambda>c. (Live, c, dumps sample_lib ((sample_payload pair)\<lparr>timestamp := t\<rparr>)))
        (list_clients (sample_env\<lparr>now := t\<rparr>) (connected_clients st)),
      Published ((sample_payload pair)\<lparr>timestamp := t\<rparr>) None)"
  proof (rule fetch_undisturbed)
    show "ticker_stage sample_lib (response_ticker (sample_env\<lparr>now := t\<rparr>)) =
        Inr (110, 120, 100, 5000)"
      by (simp add: sample_env_def sample_ticker_stage)
    show "depth_try sample_lib (response_depth (sample_env\<lparr>now := t\<rparr>)) =
        ([(100, 1), (99, 2)], [(111, 4), (112, 3)], None)"
      by (simp add: sample_env_def sample_depth_try)
    show "None = None \<or> (\<exists>e. None = Some e \<and> depth_handled e)" by simp
    show "set (list_clients (sample_env\<lparr>now := t\<rparr>) (connected_clients st)) =
        connected_clients st"
      using assms by (simp add: sample_env_def)
    show "distinct (list_clients (sample_env\<lparr>now := t\<rparr>) (connected_clients st))"
      by (simp add: sample_env_def)
    show "\<forall>c \<in> connected_clients st. fst (sending (sample_env\<lparr>now := t\<rparr>) c) = []"
      by (simp add: sample_env_def quiet_def)
    show "(sample_payload pair)\<lparr>timestamp := t\<rparr> =
        \<lparr>symbol = pair, price = 110, high_price = 120, low_price = 100,
         percentage_change = format_2f (compute_percentage_change 110 100 120),
         volume_24h = 5000, buy_orders = [(100, 1), (99, 2)],
         sell_orders = [(111, 4), (112, 3)], timestamp = now (sample_env\<lparr>now := t\<rparr>)\<rparr>"
      by (simp add: sample_payload_def sample_percentage)
  qed
  then show ?thesis
    by (simp add: sample_env_def quiet_def)
qed

lemma sample_same_time: "sample_env\<lparr>now := ''2025-01-01T00:00:00''\<rparr> = sample_env"
  "(sample_payload pair)\<lparr>timestamp := ''2025-01-01T00:00:00''\<rparr> = sample_payload pair"
  by (simp_all add: sample_env_def sample_payload_def)

lemma reachable_one_cached: "reachable sample_lib one_cached"
proof -
  have f: "fetch_and_broadcast_data sample_lib sample_env ''BTC/IDR'' initial_state =
      (one_cached, [], Published (sample_payload ''BTC/IDR'') None)"
    using sample_fetch_quiet [of initial_state "''2025-01-01T00:00:00''" "''BTC/IDR''"]
    by (simp add: sample_same_time one_cached_def initial_state_def)
  have m: "''BTC/IDR'' \<in> set CURRENCY_PAIRS" by (simp add: CURRENCY_PAIRS_def)
  show ?thesis by (rule reachable.fetch [OF reachable.start m f])
qed

lemma reachable_two_cached: "reachable sample_lib two_cached"
proof -
  have f: "fetch_and_broadcast_data sample_lib sample_env ''ETH/IDR'' one_cached =
      (two_cached, [], Published (sample_payload ''ETH/IDR'') None)"
    using sample_fetch_quiet [of one_cached "''2025-01-01T00:00:00''" "''ETH/IDR''"]
    by (simp add: sample_same_time two_cached_def one_cached_def initial_state_def)
  have m: "''ETH/IDR'' \<in> set CURRENCY_PAIRS" by (simp add: CURRENCY_PAIRS_def)
  show ?thesis by (rule reachable.fetch [OF reachable_one_cached m f])
qed

subsection \<open>The replay\<close>

lemma replay_loop_undisturbed:
  "\<forall>s \<in> set syms. W s = ([], Delivered) \<Longrightarrow> \<forall>s \<in> set syms. current_data st s \<noteq> None \<Longrightarrow>
     replay_loop L W c syms st =
       (st, concat (map (\<lambda>s. case current_data st s of
                                 Some (Some p) \<Rightarrow> [(Replay, c, dumps L p)]
                               | _ \<Rightarrow> []) syms), None)"
proof (induction syms)
  case Nil
  show ?case by simp
next
  case (Cons s syms)
  then obtain v where v: "current_data st s = Some v" by auto
  from Cons have IH: "replay_loop L W c syms st =
       (st, concat (map (\<lambda>s. case current_data st s of
                                 Some (Some p) \<Rightarrow> [(Replay, c, dumps L p)]
                               | _ \<Rightarrow> []) syms), None)"
    by simp
  from Cons.prems(1) have W: "W s = ([], Delivered)" by simp
  show ?case
    by (cases v) (simp_all add: lookup_cache_def v IH W)
qed

lemma run_fetches_live: "run_fetches L calls st = (st', tr) \<Longrightarrow> x \<in> set tr \<Longrightarrow> fst x = Live"
proof (induction calls arbitrary: st st' tr)
  case Nil
  then show ?case by simp
next
  case (Cons call calls)
  obtain pair env where call: "call = (pair, env)" by (cases call)
  obtain st1 tr1 oc where f: "fetch_and_broadcast_data L env pair st = (st1, tr1, oc)"
    by (cases "fetch_and_broadcast_data L env pair st")
  obtain st2 tr2 where r: "run_fetches L calls st1 = (st2, tr2)"
    by (cases "run_fetches L calls st1")
  from Cons.prems(1) call f r have tr: "tr = tr1 @ tr2" by simp
  have live1: "\<And>y. y \<in> set tr1 \<Longrightarrow> fst y = Live"
  proof (cases "\<exists>p ex. oc = Published p ex")
    case True
    fix y assume y: "y \<in> set tr1"
    from True obtain p ex where oc: "oc = Published p ex" by blast
    from f [unfolded oc] obtain st0 where
      "send_loop (sending env) (dumps L p) (list_clients env (connected_clients st)) st0 =
         (st1, tr1, ex)"
      by (elim fetch_published) simp
    from send_loop_messages [OF this y] show "fst y = Live" by auto
  next
    case False
    fix y assume y: "y \<in> set tr1"
    from False f have "tr1 = []" by (simp add: fetch_unpublished)
    with y show "fst y = Live" by simp
  qed
  from Cons.prems(2) tr have "x \<in> set tr1 \<or> x \<in> set tr2" by simp
  then show ?case
  proof
    assume "x \<in> set tr1"
    then show ?thesis by (rule live1)
  next
    assume "x \<in> set tr2"
    with r show ?thesis by (rule Cons.IH)
  qed
qed

lemma replay_first_append:
  "\<forall>x \<in> set xs. fst x = Replay \<Longrightarrow> \<forall>y \<in> set ys. fst y = Live \<Longrightarrow> replay_first c (xs @ ys)"
proof (induction xs)
  case Nil
  then show ?case
  proof (induction ys)
    case Nil
    show ?case by simp
  next
    case (Cons y ys)
    obtain o' c' m where y: "y = (o', c', m)" by (cases y)
    with Cons.prems have "o' = Live" by simp
    moreover from Cons.prems have "list_all (\<lambda>x. \<not> (fst x = Replay \<and> fst (snd x) = c)) ys"
      by (auto simp: list_all_iff)
    moreover from Cons have "replay_first c ([] @ ys)" by simp
    ultimately show ?case using y by simp
  qed
next
  case (Cons x xs)
  obtain o' c' m where x: "x = (o', c', m)" by (cases x)
  with Cons.prems have "o' = Replay" by simp
  with Cons x show ?case by simp
qed

lemma expected_replay_only_replay: "x \<in> set (expected_replay L c st) \<Longrightarrow> fst x = Replay"
  by (auto simp: expected_replay_def split: option.splits)

lemma expected_replay_two_cached:
  "expected_replay sample_lib 7 two_cached =
     [(Replay, 7, ''BTC/IDR 10.00 2025-01-01T00:00:00''),
      (Replay, 7, ''ETH/IDR 10.00 2025-01-01T00:00:00'')]"
  by (simp add: expected_replay_def CURRENCY_PAIRS_def two_cached_def one_cached_def
      initial_state_def sample_lib_def sample_payload_def)

subsection \<open>A client that disconnects during a broadcast\<close>

lemma race_fetch:
  "fetch_and_broadcast_data sample_lib race_env ''BTC/IDR'' three_clients =
     (three_clients\<lparr>current_data :=
          (current_data three_clients)(''BTC/IDR'' := Some (Some (sample_payload ''BTC/IDR''))),
        connected_clients := {1, 3}\<rparr>,
      [(Live, 1, dumps sample_lib (sample_payload ''BTC/IDR'')),
       (Live, 2, dumps sample_lib (sample_payload ''BTC/IDR''))],
      Published (sample_payload ''BTC/IDR'') (Some KeyError))"
proof -
  have "{1, 2, 3} - {2 :: nat} = {1, 3}" by auto
  then show ?thesis
    by (simp add: fetch_and_broadcast_data_def race_env_def sample_env_def sample_ticker_stage
      sample_depth_try sample_percentage sample_payload_def three_clients_def
      sample_list_clients disconnect_race_def Let_def unregister_def broadcaster_remove_def)
qed

section \<open>The claims\<close>

text \<open>
  C1, for a timeout. When the ticker stage succeeded and the depth request times out,
  the call ends in the handler of line 147 with the state it was given: no payload is
  cached and nothing is sent. (\<^verbatim>\<open>asyncio.TimeoutError\<close> is none of the classes the
  handlers of lines 99--104 catch, so the depth failure is not absorbed.)
\<close>

theorem depth_timeout_aborts_the_fetch:
  assumes "ticker_stage L (response_ticker env) = Inr v"
    and "response_depth env = Raises TimeoutError"
  shows "fetch_and_broadcast_data L env pair st = (st, [], Caught TimeoutError)"
  using assms by (cases v) (simp add: fetch_and_broadcast_data_def depth_try_def)

theorem depth_timeout_aborts_the_fetch_witness:
  "fetch_and_broadcast_data sample_lib (sample_env\<lparr>response_depth := Raises TimeoutError\<rparr>)
     ''BTC/IDR'' three_clients = (three_clients, [], Caught TimeoutError)"
  using depth_timeout_aborts_the_fetch
    [of sample_lib "sample_env\<lparr>response_depth := Raises TimeoutError\<rparr>" "(110, 120, 100, 5000)"]
  by (simp add: sample_env_def sample_ticker_stage)

text \<open>
  C2, for a client removed twice. The removal of lines 134 and 137 raises \<^verbatim>\<open>KeyError\<close>
  when the client's own handler has removed it before (lines 207--209 test membership,
  the broadcast does not); in the broadcast during which client 2 disconnects, that
  exception is what ends the loop.
\<close>

theorem broadcaster_removal_after_disconnect_raises:
  "broadcaster_remove c (websocket_endpoint_disconnect c st) = Inl KeyError
   \<and> snd (snd (fetch_and_broadcast_data sample_lib race_env ''BTC/IDR'' three_clients)) =
       Published (sample_payload ''BTC/IDR'') (Some KeyError)"
  by (simp add: race_fetch broadcaster_remove_def websocket_endpoint_disconnect_def
      unregister_def)

theorem broadcaster_removal_after_disconnect_raises_witness:
  "broadcaster_remove 2 (websocket_endpoint_disconnect 2 three_clients) = Inl KeyError"
  using broadcaster_removal_after_disconnect_raises [of 2 three_clients]
  by simp

text \<open>
  C3. When the ticker stage fails (the request raises: a network error, a timeout, an
  HTTP error status or a body that is not JSON; the body is empty or has no \<open>ticker\<close>
  field; a ticker field is not a number), the call returns the state it was given, so
  the cached payload of the symbol is what it was, and nothing is sent to any client.
\<close>

theorem ticker_failure_changes_nothing:
  assumes "response_ticker env = Raises e
     \<or> response_ticker env = Body d \<and> \<not> truthy d
     \<or> response_ticker env = Body d \<and> py_in ''ticker'' d \<noteq> Inr True
     \<or> response_ticker env = Body d \<and> py_getitem d ''ticker'' = Inl e
     \<or> response_ticker env = Body d \<and> py_getitem d ''ticker'' = Inr t
         \<and> ticker_fields L t = Inl e"
  shows "\<exists>oc. fetch_and_broadcast_data L env pair st = (st, [], oc)
           \<and> (oc = NoData \<or> (\<exists>e'. oc = Caught e'))"
proof -
  from assms have "\<exists>a. ticker_stage L (response_ticker env) = Inl a"
    by (auto simp: ticker_stage_def split: sum.splits)
  then obtain a where "ticker_stage L (response_ticker env) = Inl a" ..
  then have "fetch_and_broadcast_data L env pair st =
      (st, [], case a of Returned \<Rightarrow> NoData | Raised e \<Rightarrow> Caught e)"
    by (rule fetch_aborted)
  then show ?thesis by (cases a) auto
qed

theorem ticker_failure_changes_nothing_witness:
  "\<exists>oc. fetch_and_broadcast_data sample_lib
           (sample_env\<lparr>response_ticker := Body (JObj [(''error'', JStr ''down'')])\<rparr>)
           ''BTC/IDR'' three_clients = (three_clients, [], oc)
         \<and> (oc = NoData \<or> (\<exists>e'. oc = Caught e'))"
  using ticker_failure_changes_nothing
    [of "sample_env\<lparr>response_ticker := Body (JObj [(''error'', JStr ''down'')])\<rparr>"
        RuntimeError "JObj [(''error'', JStr ''down'')]" JNull sample_lib "''BTC/IDR''"
        three_clients]
  by simp





text \<open>
  C6, in the same broadcast. The loop iterates over clients 1, 2 and 3; the failed send
  to client 2 ends it (through the \<^verbatim>\<open>KeyError\<close> of the removal), so the message goes to
  clients 1 and 2 only, and client 3, still registered, is never sent it.
\<close>

theorem failed_send_aborts_the_broadcast:
  "list_clients race_env (connected_clients three_clients) = [1, 2, 3]
   \<and> fst (snd (fetch_and_broadcast_data sample_lib race_env ''BTC/IDR'' three_clients)) =
       [(Live, 1, dumps sample_lib (sample_payload ''BTC/IDR'')),
        (Live, 2, dumps sample_lib (sample_payload ''BTC/IDR''))]
   \<and> connected_clients
        (fst (fetch_and_broadcast_data sample_lib race_env ''BTC/IDR'' three_clients)) = {1, 3}"
proof -
  have "list_clients race_env (connected_clients three_clients) = [1, 2, 3]"
    by (simp add: race_env_def sample_env_def three_clients_def sample_list_clients)
  then show ?thesis by (simp add: race_fetch)
qed

text \<open>
  C7, as the code has it. When every replay send is delivered and no fetch completes
  while one of them is awaited, a new connection is registered, is sent exactly one
  message per symbol with a cached payload, in the configured order, and then waits;
  every broadcast message comes after them.
\<close>

theorem replay_before_live_when_undisturbed:
  assumes "reachable L st"
    and "\<forall>s. W s = ([], Delivered)"
  shows "websocket_endpoint_connect L W c st =
           (register c st, expected_replay L c st, Holding)
         \<and> replay_first c (expected_replay L c st
                             @ snd (run_fetches L calls (register c st)))"
proof -
  from assms(1) have "configured_keys st" by (rule reachable_keys)
  then have keys: "\<forall>s \<in> set CURRENCY_PAIRS. current_data (register c st) s \<noteq> None"
    by (auto simp: configured_keys_def register_def)
  have same: "current_data (register c st) = current_data st"
    by (simp add: register_def)
  from assms(2) have "\<forall>s \<in> set CURRENCY_PAIRS. W s = ([], Delivered)" by simp
  from replay_loop_undisturbed [OF this keys]
  have connect: "websocket_endpoint_connect L W c st =
      (register c st, expected_replay L c st, Holding)"
    by (simp add: websocket_endpoint_connect_def expected_replay_def same)
  obtain st2 tr2 where r: "run_fetches L calls (register c st) = (st2, tr2)"
    by (cases "run_fetches L calls (register c st)")
  have "replay_first c (expected_replay L c st @ tr2)"
    using expected_replay_only_replay run_fetches_live [OF r]
    by (intro replay_first_append) auto
  with connect r show ?thesis by simp
qed

theorem replay_before_live_when_undisturbed_witness:
  "websocket_endpoint_connect sample_lib (\<lambda>s. ([], Delivered)) 7 two_cached =
     (register 7 two_cached,
      [(Replay, 7, ''BTC/IDR 10.00 2025-01-01T00:00:00''),
       (Replay, 7, ''ETH/IDR 10.00 2025-01-01T00:00:00'')], Holding)
   \<and> replay_first 7
        ([(Replay, 7, ''BTC/IDR 10.00 2025-01-01T00:00:00''),
          (Replay, 7, ''ETH/IDR 10.00 2025-01-01T00:00:00'')]
         @ snd (run_fetches sample_lib [(''ETH/IDR'', sample_env)] (register 7 two_cached)))"
  using replay_before_live_when_undisturbed
    [OF reachable_two_cached, of "\<lambda>s. ([], Delivered)" 7 "[(''ETH/IDR'', sample_env)]"]
  by (simp add: expected_replay_two_cached)

text \<open>
  C7, as the specification states it, fails when a fetch completes while a replay send
  is awaited: the client is already registered (line 185 precedes the replay), so the
  broadcast of that fetch reaches it between two replay messages.
\<close>

theorem live_message_between_replay_messages:
  "snd (racing ''BTC/IDR'') = Delivered \<and> snd (racing ''ETH/IDR'') = Delivered
   \<and> fst (snd (websocket_endpoint_connect sample_lib racing 7 two_cached)) =
       [(Replay, 7, ''BTC/IDR 10.00 2025-01-01T00:00:00''),
        (Live, 7, ''ETH/IDR 10.00 2025-01-01T00:00:02''),
        (Replay, 7, ''ETH/IDR 10.00 2025-01-01T00:00:02'')]
   \<and> \<not> replay_first 7 (fst (snd (websocket_endpoint_connect sample_lib racing 7 two_cached)))"
proof -
  let ?st = "register 7 two_cached"
  let ?p = "(sample_payload ''ETH/IDR'')\<lparr>timestamp := ''2025-01-01T00:00:02''\<rparr>"
  let ?st1 = "?st\<lparr>current_data := (current_data ?st)(''ETH/IDR'' := Some (Some ?p))\<rparr>"
  have fin: "finite (connected_clients ?st)"
    by (simp add: register_def two_cached_def one_cached_def initial_state_def)
  have cs: "sorted_list_of_set (connected_clients ?st) = [7]"
    by (simp add: register_def two_cached_def one_cached_def initial_state_def)
  have race: "fst (racing ''BTC/IDR'') = [(''ETH/IDR'', sample_env\<lparr>now := ''2025-01-01T00:00:02''\<rparr>)]"
    "snd (racing ''BTC/IDR'') = Delivered" "racing ''ETH/IDR'' = ([], Delivered)"
    by (simp_all add: racing_def)
  have run: "run_fetches sample_lib
      [(''ETH/IDR'', sample_env\<lparr>now := ''2025-01-01T00:00:02''\<rparr>)] ?st =
      (?st1, [(Live, 7, dumps sample_lib ?p)])"
    by (simp add: sample_fetch_quiet [OF fin] cs)
  have look0: "lookup_cache ?st ''BTC/IDR'' = Inr (Some (sample_payload ''BTC/IDR''))"
    by (simp add: lookup_cache_def register_def two_cached_def one_cached_def)
  have look1: "lookup_cache ?st1 ''USDT/IDR'' = Inr None"
    "lookup_cache ?st1 ''ETH/IDR'' = Inr (Some ?p)"
    "lookup_cache ?st1 ''DOGE/IDR'' = Inr None" "lookup_cache ?st1 ''XRP/IDR'' = Inr None"
    "lookup_cache ?st1 ''ETC/IDR'' = Inr None" "lookup_cache ?st1 ''ADA/IDR'' = Inr None"
    "lookup_cache ?st1 ''SOL/IDR'' = Inr None"
    by (simp_all add: lookup_cache_def register_def two_cached_def one_cached_def
        initial_state_def CURRENCY_PAIRS_def)
  have msg: "dumps sample_lib (sample_payload ''BTC/IDR'') = ''BTC/IDR 10.00 2025-01-01T00:00:00''"
    "dumps sample_lib ?p = ''ETH/IDR 10.00 2025-01-01T00:00:02''"
    by (simp_all add: sample_lib_def sample_payload_def)
  have tr: "fst (snd (websocket_endpoint_connect sample_lib racing 7 two_cached)) =
       [(Replay, 7, ''BTC/IDR 10.00 2025-01-01T00:00:00''),
        (Live, 7, ''ETH/IDR 10.00 2025-01-01T00:00:02''),
        (Replay, 7, ''ETH/IDR 10.00 2025-01-01T00:00:02'')]"
    by (simp add: websocket_endpoint_connect_def CURRENCY_PAIRS_def look0 run look1 race msg
        del: run_fetches.simps(2))
  show ?thesis
    by (simp only: tr) (simp add: race)
qed

text \<open>
  C8. In every state the program can reach, the keys of \<open>current_data\<close> are exactly the
  configured symbols, so \<open>current_data[symbol]\<close> never raises \<open>KeyError\<close> for a
  configured symbol.
\<close>

theorem cache_keys_are_the_configured_symbols:
  assumes "reachable L st"
  shows "dom (current_data st) = set CURRENCY_PAIRS
         \<and> (\<forall>s \<in> set CURRENCY_PAIRS. \<exists>v. lookup_cache st s = Inr v)"
proof -
  from assms have "configured_keys st" by (rule reachable_keys)
  then have keys: "dom (current_data st) = set CURRENCY_PAIRS"
    by (simp add: configured_keys_def)
  then have "\<forall>s \<in> set CURRENCY_PAIRS. \<exists>v. lookup_cache st s = Inr v"
    by (auto simp: lookup_cache_def split: option.splits)
  with keys show ?thesis by simp
qed

theorem cache_keys_are_the_configured_symbols_witness:
  "dom (current_data two_cached) = set CURRENCY_PAIRS
   \<and> (\<exists>v. lookup_cache two_cached ''SOL/IDR'' = Inr v)"
  using cache_keys_are_the_configured_symbols [OF reachable_two_cached]
  by (simp add: CURRENCY_PAIRS_def)

text \<open>
  C9. The payload a call stores is the payload it serialises for the broadcast, and the
  replay serialises what is stored: every message the call sends is \<open>dumps p\<close>, and a
  replay of that symbol from the state the call leaves sends \<open>dumps p\<close> too.
\<close>

theorem replay_equals_live_message:
  assumes "fetch_and_broadcast_data L env pair st = (st', tr, Published p ex)"
  shows "lookup_cache st' pair = Inr (Some p)
         \<and> (\<forall>x \<in> set tr. snd (snd x) = dumps L p)
         \<and> (\<exists>st2 tr2 ex2.
               replay_loop L W c [pair] st' = (st2, (Replay, c, dumps L p) # tr2, ex2))"
proof -
  from assms obtain st1 where
    loop: "send_loop (sending env) (dumps L p) (list_clients env (connected_clients st)) st1 =
             (st', tr, ex)"
    and st1: "st1 = st\<lparr>current_data := (current_data st)(pair := Some (Some p))\<rparr>"
    by (elim fetch_published) simp
  from loop have "current_data st' = current_data st1"
    by (rule send_loop_current_data)
  with st1 have cached: "lookup_cache st' pair = Inr (Some p)"
    by (simp add: lookup_cache_def)
  have live: "\<forall>x \<in> set tr. snd (snd x) = dumps L p"
    using send_loop_messages [OF loop] by fastforce
  have "\<exists>st2 tr2 ex2.
      replay_loop L W c [pair] st' = (st2, (Replay, c, dumps L p) # tr2, ex2)"
    using cached by (cases "snd (W pair)") (auto split: prod.splits)
  with cached live show ?thesis by blast
qed

theorem replay_equals_live_message_witness:
  "lookup_cache
     (three_clients\<lparr>current_data :=
        (current_data three_clients)(''BTC/IDR'' := Some (Some (sample_payload ''BTC/IDR'')))\<rparr>)
     ''BTC/IDR'' = Inr (Some (sample_payload ''BTC/IDR''))"
  using replay_equals_live_message [OF sample_fetch, of "''BTC/IDR''"]
  by simp



section \<open>Further properties\<close>

text \<open>
  X1. A depth request that raises an exception of a class the inner handlers catch (an
  \<^verbatim>\<open>aiohttp.ClientError\<close>, which covers an HTTP error status, or a JSON decode error)
  is absorbed: the payload has the ticker values and two empty order lists, and it is
  stored in the cache.
\<close>

theorem handled_depth_failure_is_absorbed:
  assumes "ticker_stage L (response_ticker env) = Inr (new_price, high, low, volume)"
    and "response_depth env = Raises e"
    and "depth_handled e"
  shows "\<exists>st' tr p ex. fetch_and_broadcast_data L env pair st = (st', tr, Published p ex)
           \<and> buy_orders p = [] \<and> sell_orders p = []
           \<and> price p = new_price \<and> high_price p = high \<and> low_price p = low
           \<and> volume_24h p = volume
           \<and> lookup_cache st' pair = Inr (Some p)"
proof -
  from assms(2) have d: "depth_try L (response_depth env) = ([], [], Some e)"
    by (simp add: depth_try_def)
  obtain st' tr oc where f: "fetch_and_broadcast_data L env pair st = (st', tr, oc)"
    by (cases "fetch_and_broadcast_data L env pair st")
  with assms(1,3) d obtain p ex where oc: "oc = Published p ex"
    and p: "buy_orders p = []" "sell_orders p = []" "price p = new_price"
      "high_price p = high" "low_price p = low" "volume_24h p = volume"
    by (auto simp: fetch_and_broadcast_data_def Let_def split: prod.splits)
  from f [unfolded oc] obtain st1 where
    loop: "send_loop (sending env) (dumps L p) (list_clients env (connected_clients st)) st1 =
             (st', tr, ex)"
    and st1: "st1 = st\<lparr>current_data := (current_data st)(pair := Some (Some p))\<rparr>"
    by (elim fetch_published) simp
  from loop have "current_data st' = current_data st1"
    by (rule send_loop_current_data)
  with st1 have "lookup_cache st' pair = Inr (Some p)"
    by (simp add: lookup_cache_def)
  with f oc p show ?thesis by simp
qed

theorem handled_depth_failure_is_absorbed_witness:
  "\<exists>st' tr p ex.
     fetch_and_broadcast_data sample_lib (sample_env\<lparr>response_depth := Raises ClientError\<rparr>)
       ''BTC/IDR'' three_clients = (st', tr, Published p ex)
     \<and> buy_orders p = [] \<and> sell_orders p = []
     \<and> price p = 110 \<and> high_price p = 120 \<and> low_price p = 100 \<and> volume_24h p = 5000
     \<and> lookup_cache st' ''BTC/IDR'' = Inr (Some p)"
  using handled_depth_failure_is_absorbed
    [of sample_lib "sample_env\<lparr>response_depth := Raises ClientError\<rparr>" 110 120 100 5000
        ClientError "''BTC/IDR''" three_clients]
  by (simp add: sample_env_def sample_ticker_stage)

text \<open>
  X2. A broadcast during which no connection handler touches the registry: the message is
  sent once to every client of the list taken at the start, in that order, a failed send
  takes exactly the failing client out of the registry, and the loop runs to its end.
\<close>

theorem undisturbed_broadcast_reaches_every_client:
  assumes "fetch_and_broadcast_data L env pair st = (st', tr, Published p ex)"
    and "set (list_clients env (connected_clients st)) = connected_clients st"
    and "distinct (list_clients env (connected_clients st))"
    and "\<forall>c \<in> connected_clients st. fst (sending env c) = []"
  shows "ex = None
         \<and> tr = map (\<lambda>c. (Live, c, dumps L p)) (list_clients env (connected_clients st))
         \<and> connected_clients st' =
             connected_clients st - {c \<in> connected_clients st. snd (sending env c) \<noteq> Delivered}"
proof -
  let ?cs = "list_clients env (connected_clients st)"
  from assms(1) obtain st1 where
    loop: "send_loop (sending env) (dumps L p) ?cs st1 = (st', tr, ex)"
    and st1: "st1 = st\<lparr>current_data := (current_data st)(pair := Some (Some p))\<rparr>"
    by (elim fetch_published) simp
  have "send_loop (sending env) (dumps L p) ?cs st1 =
      (st1\<lparr>connected_clients :=
          connected_clients st1 - {c \<in> set ?cs. snd (sending env c) \<noteq> Delivered}\<rparr>,
       map (\<lambda>c. (Live, c, dumps L p)) ?cs, None)"
    using assms(2,3,4) st1 by (intro send_loop_undisturbed) auto
  with loop assms(2) st1 show ?thesis by auto
qed

theorem undisturbed_broadcast_reaches_every_client_witness:
  "[(Live, 1, dumps sample_lib (sample_payload ''BTC/IDR'')),
    (Live, 2, dumps sample_lib (sample_payload ''BTC/IDR'')),
    (Live, 3, dumps sample_lib (sample_payload ''BTC/IDR''))] =
   map (\<lambda>c. (Live, c, dumps sample_lib (sample_payload ''BTC/IDR''))) [1, 2, 3]
   \<and> connected_clients three_clients = {1, 2, 3}"
  using undisturbed_broadcast_reaches_every_client [OF sample_fetch, of "''BTC/IDR''"]
  by (simp add: sample_env_def three_clients_def sample_list_clients quiet_def)

text \<open>
  X3. The 24-hour volume is read from \<open>vol_idr\<close> when the ticker has it, else from
  \<open>volume\<close>, else it is 0.
\<close>

theorem volume_fallback:
  "ticker_fields sample_lib (JObj [(''vol_idr'', JStr ''5000'')]) = Inr (0, 0, 0, 5000)
   \<and> ticker_fields sample_lib (JObj [(''volume'', JStr ''100'')]) = Inr (0, 0, 0, 100)
   \<and> ticker_fields sample_lib (JObj []) = Inr (0, 0, 0, 0)"
  by (simp add: ticker_fields_def get_float_def sample_float)

text \<open>
  X4. A broadcast sends only to clients that are in the registry when it starts: a
  connection that has not reached line 185 yet is sent no live message.
\<close>

theorem unregistered_client_is_sent_nothing:
  assumes "fetch_and_broadcast_data L env pair st = (st', tr, oc)"
    and "set (list_clients env (connected_clients st)) = connected_clients st"
    and "c \<notin> connected_clients st"
  shows "\<forall>x \<in> set tr. fst (snd x) \<noteq> c"
proof (cases "\<exists>p ex. oc = Published p ex")
  case True
  then obtain p ex where oc: "oc = Published p ex" by blast
  from assms(1) [unfolded oc] obtain st1 where
    loop: "send_loop (sending env) (dumps L p) (list_clients env (connected_clients st)) st1 =
             (st', tr, ex)"
    by (elim fetch_published) simp
  show ?thesis
  proof
    fix x assume "x \<in> set tr"
    from send_loop_messages [OF loop this] assms(2) obtain c' where
      "c' \<in> connected_clients st" "x = (Live, c', dumps L p)"
      by auto
    with assms(3) show "fst (snd x) \<noteq> c" by auto
  qed
next
  case False
  with assms(1) have "tr = []" by (simp add: fetch_unpublished)
  then show ?thesis by simp
qed

theorem unregistered_client_is_sent_nothing_witness:
  "7 \<notin> set (map (\<lambda>x. fst (snd x))
      [(Live, 1 :: nat, dumps sample_lib (sample_payload ''BTC/IDR'')),
       (Live, 2, dumps sample_lib (sample_payload ''BTC/IDR'')),
       (Live, 3, dumps sample_lib (sample_payload ''BTC/IDR''))])"
  using unregistered_client_is_sent_nothing [where c = 7, OF sample_fetch [of "''BTC/IDR''"]]
  by (simp add: sample_env_def three_clients_def)

text \<open>
  X5. Whatever the decoded depth body is (not a dict, a side missing or not a list, an
  entry that does not unpack or is not a number), the exception it leads to is one the
  inner handlers catch, and the payload is still published.
\<close>

theorem malformed_depth_body_is_absorbed:
  assumes "ticker_stage L (response_ticker env) = Inr v"
    and "response_depth env = Body d"
  shows "\<exists>st' tr p ex. fetch_and_broadcast_data L env pair st = (st', tr, Published p ex)"
proof -
  obtain buy sell dex where d: "depth_try L (response_depth env) = (buy, sell, dex)"
    by (cases "depth_try L (response_depth env)")
  have "dex = None \<or> (\<exists>e. dex = Some e \<and> depth_handled e)"
  proof (cases dex)
    case None
    then show ?thesis by simp
  next
    case (Some e)
    with d assms(2) have "depth_handled e" by (auto dest: depth_body_error)
    with Some show ?thesis by simp
  qed
  with assms(1) d show ?thesis
    by (cases v) (auto simp: fetch_and_broadcast_data_def Let_def split: prod.splits)
qed

theorem malformed_depth_body_is_absorbed_witness:
  "\<exists>st' tr p ex.
     fetch_and_broadcast_data sample_lib (sample_env\<lparr>response_depth := Body JNull\<rparr>)
       ''BTC/IDR'' three_clients = (st', tr, Published p ex)"
  using malformed_depth_body_is_absorbed
    [of sample_lib "sample_env\<lparr>response_depth := Body JNull\<rparr>" "(110, 120, 100, 5000)" JNull]
  by (simp add: sample_env_def sample_ticker_stage)

end
